theory Spec2Isabelle
  imports Main "HOL-Library.Word"
begin

unbundle bit_operations_syntax

section \<open>TPU node pool provisioner (axlearn/cloud/gcp/node_pool_provisioner.py)\<close>

text \<open>
  A shallow embedding of \<^verbatim>\<open>TPUNodePoolProvisioner.create_for\<close> and
  \<^verbatim>\<open>TPUNodePoolProvisioner.delete_for\<close>.

  \<^item> A Python \<^verbatim>\<open>str\<close> is a \<^typ>\<open>string\<close> holding its UTF-8 bytes. Concatenation of
    strings is concatenation of their encodings, so \<^verbatim>\<open>s.encode()\<close> only changes the
    element type (\<open>encode\<close> below), and two strings are equal exactly when their encodings are.
  \<^item> \<^verbatim>\<open>os.environ\<close> is a map from variable names to values.
  \<^item> Every exception is a value of type \<open>error\<close>; a function that may raise returns
    \<open>error + 'a\<close> with \<open>Inl\<close> for the exception.
  \<^item> The functions and tables that the module imports from other modules
    (\<^verbatim>\<open>infer_tpu_type\<close>, \<^verbatim>\<open>USER_FACING_NAME_TO_SYSTEM_CHARACTERISTICS\<close>,
    \<^verbatim>\<open>deserialize_jobspec\<close>, \<^verbatim>\<open>construct_node_pool_name\<close>, \<^verbatim>\<open>create_node_pools\<close>,
    \<^verbatim>\<open>delete_node_pools\<close>) are parameters, collected in the record \<open>externals\<close>; each of
    the imported functions may raise.
  \<^item> The control plane is the list of the calls made to its client so far; the outcome of a
    call may depend on that history.
  \<^item> Logging and the \<^verbatim>\<open>time.perf_counter\<close> measurements do not influence any value that
    is passed on and are left out.
\<close>

subsection \<open>Strings of numbers\<close>

definition digit_char :: "nat \<Rightarrow> char" where
  "digit_char d = ''0123456789'' ! d"

text \<open>\<^verbatim>\<open>str(n)\<close> for a non-negative integer: decimal digits, no leading zero.\<close>

function str_nat :: "nat \<Rightarrow> string" where
  "str_nat n = (if n < 10 then [digit_char n] else str_nat (n div 10) @ [digit_char (n mod 10)])"
  by pat_completeness auto
termination
  by (relation "measure (\<lambda>n. n)") auto

declare str_nat.simps [simp del]

text \<open>\<^verbatim>\<open>str(i)\<close> for any integer.\<close>

definition str_int :: "int \<Rightarrow> string" where
  "str_int i = (if i < 0 then CHR ''-'' # str_nat (nat (- i)) else str_nat (nat i))"

subsection \<open>\<^verbatim>\<open>hashlib.sha1(...).hexdigest()\<close>\<close>

type_synonym u32 = "32 word"

type_synonym sha1_state = "u32 \<times> u32 \<times> u32 \<times> u32 \<times> u32"

definition encode :: "string \<Rightarrow> 8 word list" where
  "encode s = map (\<lambda>c. of_nat (of_char c)) s"

definition be64 :: "64 word \<Rightarrow> 8 word list" where
  "be64 w = map (\<lambda>i. ucast (drop_bit (8 * i) w)) [7, 6, 5, 4, 3, 2, 1, 0]"

text \<open>Padding: the bit 1, zeros up to 56 modulo 64 bytes, the bit length in 64 bits.\<close>

definition sha1_pad :: "8 word list \<Rightarrow> 8 word list" where
  "sha1_pad m =
     m @ [0x80] @ replicate ((119 - length m mod 64) mod 64) 0 @ be64 (of_nat (8 * length m))"

fun be32s :: "8 word list \<Rightarrow> u32 list" where
  "be32s (a # b # c # d # r) =
     (push_bit 24 (ucast a) OR push_bit 16 (ucast b) OR push_bit 8 (ucast c) OR ucast d) # be32s r"
| "be32s _ = []"

text \<open>The circular left shift of a 32-bit word by \<open>n\<close> bits, \<open>0 < n < 32\<close>.\<close>

definition rotl32 :: "nat \<Rightarrow> u32 \<Rightarrow> u32" where
  "rotl32 n w = push_bit n w OR drop_bit (32 - n) w"

text \<open>The message schedule: \<open>k\<close> more words appended to the words \<open>w\<close> already there.\<close>

fun sha1_schedule :: "nat \<Rightarrow> u32 list \<Rightarrow> u32 list" where
  "sha1_schedule 0 w = w"
| "sha1_schedule (Suc k) w =
     (let t = length w
      in sha1_schedule k
           (w @ [rotl32 1 (w ! (t - 3) XOR w ! (t - 8) XOR w ! (t - 14) XOR w ! (t - 16))]))"

definition sha1_f :: "nat \<Rightarrow> u32 \<Rightarrow> u32 \<Rightarrow> u32 \<Rightarrow> u32" where
  "sha1_f t b c d =
     (if t < 20 then (b AND c) OR (NOT b AND d)
      else if t < 40 then b XOR c XOR d
      else if t < 60 then (b AND c) OR (b AND d) OR (c AND d)
      else b XOR c XOR d)"

definition sha1_k :: "nat \<Rightarrow> u32" where
  "sha1_k t =
     (if t < 20 then 0x5A827999
      else if t < 40 then 0x6ED9EBA1
      else if t < 60 then 0x8F1BBCDC
      else 0xCA62C1D6)"

fun sha1_round :: "u32 list \<Rightarrow> nat \<Rightarrow> sha1_state \<Rightarrow> sha1_state" where
  "sha1_round w t (a, b, c, d, e) =
     (rotl32 5 a + sha1_f t b c d + e + sha1_k t + w ! t, a, rotl32 30 b, c, d)"

fun sha1_compress :: "sha1_state \<Rightarrow> u32 list \<Rightarrow> sha1_state" where
  "sha1_compress (h0, h1, h2, h3, h4) block =
     (case fold (sha1_round (sha1_schedule 64 block)) [0..<80] (h0, h1, h2, h3, h4) of
        (a, b, c, d, e) \<Rightarrow> (h0 + a, h1 + b, h2 + c, h3 + d, h4 + e))"

function sha1_blocks :: "sha1_state \<Rightarrow> u32 list \<Rightarrow> sha1_state" where
  "sha1_blocks h ws =
     (if length ws < 16 then h else sha1_blocks (sha1_compress h (take 16 ws)) (drop 16 ws))"
  by pat_completeness auto
termination
  by (relation "measure (\<lambda>(h, ws). length ws)") auto

declare sha1_blocks.simps [simp del]

definition sha1 :: "8 word list \<Rightarrow> sha1_state" where
  "sha1 m =
     sha1_blocks (0x67452301, 0xEFCDAB89, 0x98BADCFE, 0x10325476, 0xC3D2E1F0)
       (be32s (sha1_pad m))"

definition hex_digit :: "nat \<Rightarrow> char" where
  "hex_digit n = ''0123456789abcdef'' ! n"

definition hex32 :: "u32 \<Rightarrow> string" where
  "hex32 w = map (\<lambda>i. hex_digit (unat (drop_bit (4 * i) w AND 0xF))) [7, 6, 5, 4, 3, 2, 1, 0]"

definition hexdigest :: "sha1_state \<Rightarrow> string" where
  "hexdigest h = (case h of (a, b, c, d, e) \<Rightarrow> hex32 a @ hex32 b @ hex32 c @ hex32 d @ hex32 e)"

text \<open>The one block of the message \<open>abc\<close> after padding, and its message schedule.\<close>

definition abc_block :: "u32 list" where
  "abc_block =
     [0x61626380, 0x00000000, 0x00000000, 0x00000000, 0x00000000, 0x00000000,
     0x00000000, 0x00000000, 0x00000000, 0x00000000, 0x00000000, 0x00000000,
     0x00000000, 0x00000000, 0x00000000, 0x00000018]"

definition abc_schedule :: "u32 list" where
  "abc_schedule =
     [0x61626380, 0x00000000, 0x00000000, 0x00000000, 0x00000000, 0x00000000,
     0x00000000, 0x00000000, 0x00000000, 0x00000000, 0x00000000, 0x00000000,
     0x00000000, 0x00000000, 0x00000000, 0x00000018, 0xC2C4C700, 0x00000000,
     0x00000030, 0x85898E01, 0x00000000, 0x00000060, 0x0B131C03, 0x00000030,
     0x85898EC1, 0x16263806, 0x00000000, 0x00000180, 0x2C4C700C, 0x000000F0,
     0x93AFB507, 0x5898E048, 0x8E9A9202, 0x00000600, 0xB131C0F0, 0x16263BC6,
     0x4EBED41E, 0x626380A1, 0x16263806, 0x000018C0, 0xD2E138C4, 0x00000F00,
     0x3AFB5079, 0x898E04E5, 0xE2BA3C2B, 0x000060C0, 0x053A37CD, 0x74458547,
     0xDA9415ED, 0x26380A16, 0x626383A1, 0x4EBF54DE, 0x3835B44B, 0x0000F600,
     0x1E84C7A3, 0x98E04D98, 0x651D16A0, 0x62658CA1, 0x458544D6, 0x44584CB7,
     0x7BA06619, 0x6380AEA2, 0x0AE55269, 0x627B49A1, 0x7CD45C9D, 0x000F0000,
     0xFB50753A, 0xEC6765E8, 0xBA3C2BE2, 0x0060C000, 0x3A37CD05, 0x458546F4,
     0xB8599DD6, 0x380A1A26, 0x01E02203, 0xE7CC3456, 0xE6E60B69, 0x00F60A00,
     0x5795EF4F, 0x822E0879]"

subsection \<open>Jobs, configurations and the environment\<close>

text \<open>
  The class of the argument, as far as \<^verbatim>\<open>isinstance\<close> against the two tuples of the module
  can tell: an instance of \<^verbatim>\<open>TPUGKEJob\<close>, an instance of \<^verbatim>\<open>FlinkTPUGKEJob\<close>, or an
  object of some other class (with its name).
\<close>

datatype job_class = TPUGKEJob | FlinkTPUGKEJob | OtherClass string

datatype error =
    TypeError job_class
  | KeyError string
  | Raised string

record accelerator_config =
  instance_type :: string
  num_replicas :: int

record builder_config =
  accelerator :: accelerator_config
  reservation :: "string option"
  location_hint :: "string option"
  enable_tpu_ici_resiliency :: bool
  enable_tpu_smart_repair :: bool

record job_config =
  namespace :: string
  name :: string
  builder :: builder_config

record job =
  type_of :: job_class
  config :: job_config

text \<open>\<^verbatim>\<open>NodePoolProvisioner.Config\<close>.\<close>

record provisioner_config =
  project :: string
  zone :: string
  cluster :: string
  provisioner_name :: string
  service_account_email :: "string option"
  retry_interval :: int
  wait_timeout :: int

text \<open>The fields of a catalog entry that the provisioner reads.\<close>

record system_characteristics =
  topology :: string
  vms_per_slice :: int
  gce_machine_type :: string

record job_metadata =
  priority :: "int option"

record job_spec =
  metadata :: job_metadata

type_synonym environ = "string \<rightharpoonup> string"

text \<open>A value that is either a string or an integer; \<open>=\<close> on it is Python's \<^verbatim>\<open>==\<close>:
  an integer never equals a string.\<close>

datatype py_value = PyStr string | PyInt int

text \<open>\<^verbatim>\<open>os.environ.get(key, default)\<close>.\<close>

definition environ_get :: "environ \<Rightarrow> string \<Rightarrow> py_value \<Rightarrow> py_value" where
  "environ_get env key dflt = (case env key of None \<Rightarrow> dflt | Some v \<Rightarrow> PyStr v)"

definition PRE_PROVISIONER_SUPPORTED_JOBS :: "job_class list" where
  "PRE_PROVISIONER_SUPPORTED_JOBS = [TPUGKEJob, FlinkTPUGKEJob]"

definition INFERENCE_JOBS :: "job_class list" where
  "INFERENCE_JOBS = [FlinkTPUGKEJob]"

definition isinstance :: "job \<Rightarrow> job_class list \<Rightarrow> bool" where
  "isinstance j classes = (type_of j \<in> set classes)"

subsection \<open>The control-plane client\<close>

text \<open>The keyword arguments of \<^verbatim>\<open>create_node_pools\<close> and \<^verbatim>\<open>delete_node_pools\<close>.\<close>

record create_node_pools_args =
  cnp_node_pool_names :: "string list"
  cnp_project :: string
  cnp_zone :: string
  cnp_cluster :: string
  cnp_pre_provisioner_id :: string
  cnp_num_nodes_per_pool :: int
  cnp_machine_type :: string
  cnp_topology :: "string option"
  cnp_use_spot_vm :: bool
  cnp_reservation :: "string option"
  cnp_location_hint :: "string option"
  cnp_enable_tpu_ici_resiliency :: bool
  cnp_service_account_email :: "string option"
  cnp_additional_labels_list :: "(string \<rightharpoonup> string) list"
  cnp_retry_interval :: int
  cnp_wait_timeout :: int

record delete_node_pools_args =
  dnp_node_pool_names :: "string list"
  dnp_project :: string
  dnp_zone :: string
  dnp_cluster :: string
  dnp_retry_interval :: int
  dnp_wait_timeout :: int

datatype cp_call =
    CreateNodePools create_node_pools_args
  | DeleteNodePools delete_node_pools_args

record externals =
  infer_tpu_type :: "string \<Rightarrow> error + string"
  USER_FACING_NAME_TO_SYSTEM_CHARACTERISTICS :: "string \<rightharpoonup> system_characteristics"
  BASTION_SERIALIZED_JOBSPEC_ENV_VAR :: string
  deserialize_jobspec :: "string \<Rightarrow> error + job_spec"
  construct_node_pool_name :: "string \<Rightarrow> string \<Rightarrow> nat \<Rightarrow> error + string"
  create_node_pools :: "cp_call list \<Rightarrow> create_node_pools_args \<Rightarrow> error + unit"
  delete_node_pools :: "cp_call list \<Rightarrow> delete_node_pools_args \<Rightarrow> error + unit"

subsection \<open>\<^verbatim>\<open>create_for\<close>\<close>

text \<open>Lines 103 to 110: the tier from the environment, and the choice between the
  reservation and spot capacity. The result is \<open>(use_spot_vm, reservation)\<close>.\<close>

definition capacity_decision :: "environ \<Rightarrow> string option \<Rightarrow> bool \<times> string option" where
  "capacity_decision env reservation0 =
     (let tier = environ_get env ''BASTION_TIER'' (PyInt 0)
      in if tier = PyStr ''0'' \<and> reservation0 \<noteq> None
         then (False, reservation0)
         else (True, None))"

text \<open>Lines 112 to 117: the priority of the serialized job spec, when the variable is set
  to a non-empty string.\<close>

definition job_priority_from_env :: "externals \<Rightarrow> environ \<Rightarrow> error + int option" where
  "job_priority_from_env ext env =
     (case env (BASTION_SERIALIZED_JOBSPEC_ENV_VAR ext) of
        None \<Rightarrow> Inr None
      | Some s \<Rightarrow>
          if s = [] then Inr None
          else (case deserialize_jobspec ext s of
                  Inl e \<Rightarrow> Inl e
                | Inr spec \<Rightarrow> Inr (priority (metadata spec))))"

text \<open>Lines 132 to 134: the SHA-1 digest, in hexadecimal, of
  \<^verbatim>\<open>f"{job_cfg.namespace}/{job_cfg.name}-job-{i}"\<close>.\<close>

definition job_key :: "job_config \<Rightarrow> nat \<Rightarrow> string" where
  "job_key job_cfg i =
     hexdigest (sha1 (encode (namespace job_cfg @ ''/'' @ name job_cfg @ ''-job-'' @ str_nat i)))"

text \<open>Lines 135 to 142: the labels of the pool with index \<open>i\<close>.\<close>

definition additional_labels ::
  "job_config \<Rightarrow> int option \<Rightarrow> bool \<Rightarrow> nat \<Rightarrow> (string \<rightharpoonup> string)" where
  "additional_labels job_cfg job_priority smart_repair i =
     (let labels0 = [''job-key'' \<mapsto> job_key job_cfg i];
          labels1 = (case job_priority of
                       None \<Rightarrow> labels0
                     | Some p \<Rightarrow> labels0(''job-priority'' \<mapsto> str_int p));
          labels2 = (if smart_repair
                     then labels1(''cloud.google.com/gke-tpu-auto-restart'' \<mapsto> ''true'')
                     else labels1)
      in labels2)"

text \<open>Lines 119 to 144: the loop over \<^verbatim>\<open>range(num_node_pools)\<close>, with the two lists it
  appends to.\<close>

fun create_for_loop ::
  "externals \<Rightarrow> job_config \<Rightarrow> int option \<Rightarrow> bool \<Rightarrow> nat list \<Rightarrow>
   string list \<times> (string \<rightharpoonup> string) list \<Rightarrow> error + string list \<times> (string \<rightharpoonup> string) list"
where
  "create_for_loop ext job_cfg job_priority smart_repair [] acc = Inr acc"
| "create_for_loop ext job_cfg job_priority smart_repair (i # rest) (node_pool_names, labels_list) =
     (case construct_node_pool_name ext (namespace job_cfg) (name job_cfg) i of
        Inl e \<Rightarrow> Inl e
      | Inr pool_name \<Rightarrow>
          create_for_loop ext job_cfg job_priority smart_repair rest
            (node_pool_names @ [pool_name],
             labels_list @ [additional_labels job_cfg job_priority smart_repair i]))"

text \<open>\<^verbatim>\<open>range(n)\<close> for an integer \<open>n\<close>: empty when \<open>n \<le> 0\<close>.\<close>

definition range_py :: "int \<Rightarrow> nat list" where
  "range_py n = [0..<nat n]"

text \<open>Everything \<^verbatim>\<open>create_for\<close> does before it calls the client: the exception it raises,
  or the arguments it passes to \<^verbatim>\<open>create_node_pools\<close>.\<close>

definition create_for_args ::
  "externals \<Rightarrow> provisioner_config \<Rightarrow> environ \<Rightarrow> job \<Rightarrow> error + create_node_pools_args" where
  "create_for_args ext cfg env j =
     (if \<not> isinstance j PRE_PROVISIONER_SUPPORTED_JOBS then Inl (TypeError (type_of j))
      else
        let job_cfg = config j;
            builder_cfg = builder job_cfg;
            acc_cfg = accelerator builder_cfg
        in case infer_tpu_type ext (instance_type acc_cfg) of
             Inl e \<Rightarrow> Inl e
           | Inr tpu_type \<Rightarrow>
              (case USER_FACING_NAME_TO_SYSTEM_CHARACTERISTICS ext tpu_type of
                 None \<Rightarrow> Inl (KeyError tpu_type)
               | Some job_sys_property \<Rightarrow>
                  (case capacity_decision env (reservation builder_cfg) of
                     (use_spot_vm, reservation1) \<Rightarrow>
                      (case job_priority_from_env ext env of
                         Inl e \<Rightarrow> Inl e
                       | Inr job_priority \<Rightarrow>
                          (case create_for_loop ext job_cfg job_priority
                                  (enable_tpu_smart_repair builder_cfg)
                                  (range_py (num_replicas acc_cfg)) ([], []) of
                             Inl e \<Rightarrow> Inl e
                           | Inr (node_pool_names, additional_labels_list) \<Rightarrow>
                              Inr \<lparr>cnp_node_pool_names = node_pool_names,
                                   cnp_project = project cfg,
                                   cnp_zone = zone cfg,
                                   cnp_cluster = cluster cfg,
                                   cnp_pre_provisioner_id = provisioner_name cfg,
                                   cnp_num_nodes_per_pool = vms_per_slice job_sys_property,
                                   cnp_machine_type = gce_machine_type job_sys_property,
                                   cnp_topology =
                                     (if isinstance j INFERENCE_JOBS then None
                                      else Some (topology job_sys_property)),
                                   cnp_use_spot_vm = use_spot_vm,
                                   cnp_reservation = reservation1,
                                   cnp_location_hint = location_hint builder_cfg,
                                   cnp_enable_tpu_ici_resiliency =
                                     enable_tpu_ici_resiliency builder_cfg,
                                   cnp_service_account_email = service_account_email cfg,
                                   cnp_additional_labels_list = additional_labels_list,
                                   cnp_retry_interval = retry_interval cfg,
                                   cnp_wait_timeout = wait_timeout cfg\<rparr>)))))"

text \<open>\<^verbatim>\<open>create_for\<close>: the result (an exception or \<^verbatim>\<open>None\<close>) and the calls made to the
  control plane afterwards.\<close>

definition create_for ::
  "externals \<Rightarrow> provisioner_config \<Rightarrow> environ \<Rightarrow> job \<Rightarrow> cp_call list \<Rightarrow>
   (error + unit) \<times> cp_call list" where
  "create_for ext cfg env j calls =
     (case create_for_args ext cfg env j of
        Inl e \<Rightarrow> (Inl e, calls)
      | Inr args \<Rightarrow> (create_node_pools ext calls args, calls @ [CreateNodePools args]))"

subsection \<open>\<^verbatim>\<open>delete_for\<close>\<close>

text \<open>Lines 183 to 190: the loop over \<^verbatim>\<open>range(num_node_pools)\<close>.\<close>

fun delete_for_loop :: "externals \<Rightarrow> job_config \<Rightarrow> nat list \<Rightarrow> string list \<Rightarrow> error + string list"
where
  "delete_for_loop ext job_cfg [] node_pool_names = Inr node_pool_names"
| "delete_for_loop ext job_cfg (i # rest) node_pool_names =
     (case construct_node_pool_name ext (namespace job_cfg) (name job_cfg) i of
        Inl e \<Rightarrow> Inl e
      | Inr pool_name \<Rightarrow> delete_for_loop ext job_cfg rest (node_pool_names @ [pool_name]))"

text \<open>The environment is in scope of \<^verbatim>\<open>delete_for\<close> as of every function of the process;
  it is an argument here although the function does not read it.\<close>

definition delete_for_args ::
  "externals \<Rightarrow> provisioner_config \<Rightarrow> environ \<Rightarrow> job \<Rightarrow> error + delete_node_pools_args" where
  "delete_for_args ext cfg env j =
     (if \<not> isinstance j PRE_PROVISIONER_SUPPORTED_JOBS then Inl (TypeError (type_of j))
      else
        let job_cfg = config j;
            builder_cfg = builder job_cfg;
            num_node_pools = num_replicas (accelerator builder_cfg)
        in case delete_for_loop ext job_cfg (range_py num_node_pools) [] of
             Inl e \<Rightarrow> Inl e
           | Inr node_pool_names \<Rightarrow>
              Inr \<lparr>dnp_node_pool_names = node_pool_names,
                   dnp_project = project cfg,
                   dnp_zone = zone cfg,
                   dnp_cluster = cluster cfg,
                   dnp_retry_interval = retry_interval cfg,
                   dnp_wait_timeout = wait_timeout cfg\<rparr>)"

definition delete_for ::
  "externals \<Rightarrow> provisioner_config \<Rightarrow> environ \<Rightarrow> job \<Rightarrow> cp_call list \<Rightarrow>
   (error + unit) \<times> cp_call list" where
  "delete_for ext cfg env j calls =
     (case delete_for_args ext cfg env j of
        Inl e \<Rightarrow> (Inl e, calls)
      | Inr args \<Rightarrow> (delete_node_pools ext calls args, calls @ [DeleteNodePools args]))"

subsection \<open>A concrete provisioning episode\<close>

text \<open>
  Sample values for the parameters, used to run the definitions: a catalog with the one
  accelerator type \<open>v5\<close>, a job descriptor with priority 5, pool names of the form
  \<open>namespace-name-index\<close> and a client that accepts every call. The job has namespace
  \<open>ns1\<close>, name \<open>job1\<close> and two replicas.
\<close>

definition example_externals :: externals where
  "example_externals =
     \<lparr>infer_tpu_type = (\<lambda>s. Inr s),
      USER_FACING_NAME_TO_SYSTEM_CHARACTERISTICS =
        [''v5'' \<mapsto> \<lparr>topology = ''2x2'', vms_per_slice = 4, gce_machine_type = ''tpu-v5''\<rparr>],
      BASTION_SERIALIZED_JOBSPEC_ENV_VAR = ''JOBSPEC'',
      deserialize_jobspec = (\<lambda>s. Inr \<lparr>metadata = \<lparr>priority = Some 5\<rparr>\<rparr>),
      construct_node_pool_name = (\<lambda>ns n i. Inr (ns @ ''-'' @ n @ ''-'' @ str_nat i)),
      create_node_pools = (\<lambda>calls args. Inr ()),
      delete_node_pools = (\<lambda>calls args. Inr ())\<rparr>"

definition example_config :: provisioner_config where
  "example_config =
     \<lparr>project = ''proj'', zone = ''zone-a'', cluster = ''cl'', provisioner_name = ''pre'',
      service_account_email = None, retry_interval = 30, wait_timeout = 1800\<rparr>"

definition example_job :: "job_class \<Rightarrow> string option \<Rightarrow> bool \<Rightarrow> job" where
  "example_job c r repair =
     \<lparr>type_of = c,
      config = \<lparr>namespace = ''ns1'', name = ''job1'',
                builder = \<lparr>accelerator = \<lparr>instance_type = ''v5'', num_replicas = 2\<rparr>,
                           reservation = r, location_hint = None,
                           enable_tpu_ici_resiliency = False,
                           enable_tpu_smart_repair = repair\<rparr>\<rparr>\<rparr>"

definition example_create_args :: create_node_pools_args where
  "example_create_args =
     \<lparr>cnp_node_pool_names = [''ns1-job1-0'', ''ns1-job1-1''],
      cnp_project = ''proj'', cnp_zone = ''zone-a'', cnp_cluster = ''cl'',
      cnp_pre_provisioner_id = ''pre'',
      cnp_num_nodes_per_pool = 4, cnp_machine_type = ''tpu-v5'',
      cnp_topology = Some ''2x2'',
      cnp_use_spot_vm = False, cnp_reservation = Some ''resA'',
      cnp_location_hint = None, cnp_enable_tpu_ici_resiliency = False,
      cnp_service_account_email = None,
      cnp_additional_labels_list =
        [[''job-key'' \<mapsto> hexdigest (sha1 (encode ''ns1/job1-job-0''))],
         [''job-key'' \<mapsto> hexdigest (sha1 (encode ''ns1/job1-job-1''))]],
      cnp_retry_interval = 30, cnp_wait_timeout = 1800\<rparr>"

text \<open>Parameters under which everything after the catalog lookup raises: an empty
  catalog, a job descriptor that cannot be read and a naming function that fails.\<close>

definition failing_externals :: externals where
  "failing_externals =
     \<lparr>infer_tpu_type = (\<lambda>s. Inr s),
      USER_FACING_NAME_TO_SYSTEM_CHARACTERISTICS = Map.empty,
      BASTION_SERIALIZED_JOBSPEC_ENV_VAR = ''JOBSPEC'',
      deserialize_jobspec = (\<lambda>s. Inl (Raised ''deserialize_jobspec'')),
      construct_node_pool_name = (\<lambda>ns n i. Inl (Raised ''construct_node_pool_name'')),
      create_node_pools = (\<lambda>calls args. Inr ()),
      delete_node_pools = (\<lambda>calls args. Inr ())\<rparr>"

text \<open>The arguments of \<^verbatim>\<open>delete_node_pools\<close> for the sample job.\<close>

definition example_delete_args :: delete_node_pools_args where
  "example_delete_args =
     \<lparr>dnp_node_pool_names = [''ns1-job1-0'', ''ns1-job1-1''],
      dnp_project = ''proj'', dnp_zone = ''zone-a'', dnp_cluster = ''cl'',
      dnp_retry_interval = 30, dnp_wait_timeout = 1800\<rparr>"

section \<open>Properties\<close>

lemmas example_defs =
  example_externals_def example_config_def example_job_def example_create_args_def
  failing_externals_def example_delete_args_def

lemmas eval_defs =
  create_for_args_def create_for_def delete_for_args_def delete_for_def
  isinstance_def PRE_PROVISIONER_SUPPORTED_JOBS_def INFERENCE_JOBS_def
  capacity_decision_def environ_get_def job_priority_from_env_def range_py_def
  job_key_def additional_labels_def Let_def str_nat.simps str_int_def digit_char_def upt_rec

subsection \<open>The two loops\<close>

lemma create_for_loop_Inr:
  "create_for_loop ext job_cfg p r idxs (ns, ls) = Inr (ns', ls') \<Longrightarrow>
   map Inr ns' = map Inr ns @ map (construct_node_pool_name ext (namespace job_cfg) (name job_cfg)) idxs
   \<and> ls' = ls @ map (additional_labels job_cfg p r) idxs"
proof (induction idxs arbitrary: ns ls)
  case Nil
  then show ?case by simp
next
  case (Cons i rest)
  from Cons.prems obtain pool_name where
    nm: "construct_node_pool_name ext (namespace job_cfg) (name job_cfg) i = Inr pool_name"
    and rec: "create_for_loop ext job_cfg p r rest
                (ns @ [pool_name], ls @ [additional_labels job_cfg p r i]) = Inr (ns', ls')"
    by (auto split: sum.splits)
  from Cons.IH [OF rec] nm show ?case by simp
qed

lemma delete_for_loop_Inr:
  "delete_for_loop ext job_cfg idxs ns = Inr ns' \<Longrightarrow>
   map Inr ns' = map Inr ns @ map (construct_node_pool_name ext (namespace job_cfg) (name job_cfg)) idxs"
  by (induction idxs arbitrary: ns) (auto split: sum.splits)

lemma delete_for_loop_cong:
  "construct_node_pool_name ext = construct_node_pool_name ext' \<Longrightarrow>
   namespace job_cfg = namespace job_cfg' \<Longrightarrow> name job_cfg = name job_cfg' \<Longrightarrow>
   delete_for_loop ext job_cfg idxs ns = delete_for_loop ext' job_cfg' idxs ns"
  by (induction idxs arbitrary: ns) (auto split: sum.splits)

lemma delete_for_loop_total:
  "\<forall>i \<in> set idxs. \<exists>nm. construct_node_pool_name ext (namespace job_cfg) (name job_cfg) i = Inr nm \<Longrightarrow>
   \<exists>ns'. delete_for_loop ext job_cfg idxs ns = Inr ns'"
  by (induction idxs arbitrary: ns) (auto split: sum.splits)

lemma create_for_loop_total:
  "\<forall>i \<in> set idxs. \<exists>nm. construct_node_pool_name ext (namespace job_cfg) (name job_cfg) i = Inr nm \<Longrightarrow>
   \<exists>acc'. create_for_loop ext job_cfg p r idxs acc = Inr acc'"
  by (induction idxs arbitrary: acc) (auto split: sum.splits)

lemma create_for_args_InrD:
  assumes "create_for_args ext cfg env j = Inr a"
  shows "isinstance j PRE_PROVISIONER_SUPPORTED_JOBS \<and>
    (\<exists>tpu_type sc p ns ls.
       infer_tpu_type ext (instance_type (accelerator (builder (config j)))) = Inr tpu_type \<and>
       USER_FACING_NAME_TO_SYSTEM_CHARACTERISTICS ext tpu_type = Some sc \<and>
       job_priority_from_env ext env = Inr p \<and>
       create_for_loop ext (config j) p (enable_tpu_smart_repair (builder (config j)))
         (range_py (num_replicas (accelerator (builder (config j))))) ([], []) = Inr (ns, ls) \<and>
       cnp_node_pool_names a = ns \<and> cnp_additional_labels_list a = ls \<and>
       cnp_topology a = (if isinstance j INFERENCE_JOBS then None else Some (topology sc)) \<and>
       cnp_use_spot_vm a = fst (capacity_decision env (reservation (builder (config j)))) \<and>
       cnp_reservation a = snd (capacity_decision env (reservation (builder (config j)))))"
  using assms
  by (auto simp: create_for_args_def Let_def split: if_splits sum.splits option.splits prod.splits)

lemma create_for_call_iff:
  "snd (create_for ext cfg env j calls) = calls @ [CreateNodePools a] \<longleftrightarrow>
   create_for_args ext cfg env j = Inr a"
  by (auto simp: create_for_def split: sum.splits)

lemma delete_for_call_iff:
  "snd (delete_for ext cfg env j calls) = calls @ [DeleteNodePools d] \<longleftrightarrow>
   delete_for_args ext cfg env j = Inr d"
  by (auto simp: delete_for_def split: sum.splits)

text \<open>\<open>create_for\<close> reaches the client whenever the job is supported, its accelerator
  type is in the catalog, and the imported functions return.\<close>

lemma create_for_reaches_client:
  assumes "isinstance j PRE_PROVISIONER_SUPPORTED_JOBS"
    and "infer_tpu_type ext (instance_type (accelerator (builder (config j)))) = Inr tpu_type"
    and "USER_FACING_NAME_TO_SYSTEM_CHARACTERISTICS ext tpu_type = Some shape"
    and "job_priority_from_env ext env = Inr p"
    and "\<forall>i < nat (num_replicas (accelerator (builder (config j)))).
           \<exists>nm. construct_node_pool_name ext (namespace (config j)) (name (config j)) i = Inr nm"
  shows "\<exists>a. snd (create_for ext cfg env j calls) = calls @ [CreateNodePools a]"
proof -
  from assms(5) have "\<forall>i \<in> set (range_py (num_replicas (accelerator (builder (config j))))).
      \<exists>nm. construct_node_pool_name ext (namespace (config j)) (name (config j)) i = Inr nm"
    by (simp add: range_py_def)
  from create_for_loop_total [OF this]
  obtain acc where "create_for_loop ext (config j) p (enable_tpu_smart_repair (builder (config j)))
      (range_py (num_replicas (accelerator (builder (config j))))) ([], []) = Inr acc"
    by blast
  with assms(1-4) have "\<exists>a. create_for_args ext cfg env j = Inr a"
    by (cases acc) (simp add: create_for_args_def Let_def split: prod.splits)
  then show ?thesis
    by (simp add: create_for_call_iff)
qed

subsection \<open>The capacity decision\<close>

text \<open>
  Claim C1. Whenever \<open>create_for\<close> reaches the control-plane client, the decision it
  passes satisfies the policy table: with tier \<open>"0"\<close> and a reservation \<open>R\<close> on the
  request it is (no spot, reservation \<open>R\<close>); with tier \<open>"1"\<close> and a reservation it is
  (spot, no reservation); with tier \<open>"0"\<close> and no reservation it is (spot, no reservation).
\<close>

theorem create_for_policy_table:
  assumes "snd (create_for ext cfg env j calls) = calls @ [CreateNodePools a]"
  shows "(env ''BASTION_TIER'' = Some ''0'' \<and> reservation (builder (config j)) = Some R \<longrightarrow>
            \<not> cnp_use_spot_vm a \<and> cnp_reservation a = Some R)
       \<and> (env ''BASTION_TIER'' = Some ''1'' \<and> reservation (builder (config j)) = Some R \<longrightarrow>
            cnp_use_spot_vm a \<and> cnp_reservation a = None)
       \<and> (env ''BASTION_TIER'' = Some ''0'' \<and> reservation (builder (config j)) = None \<longrightarrow>
            cnp_use_spot_vm a \<and> cnp_reservation a = None)"
proof -
  from assms have "create_for_args ext cfg env j = Inr a"
    by (simp add: create_for_call_iff)
  then have
    "cnp_use_spot_vm a = fst (capacity_decision env (reservation (builder (config j))))"
    "cnp_reservation a = snd (capacity_decision env (reservation (builder (config j))))"
    by (auto dest: create_for_args_InrD)
  then show ?thesis
    by (simp add: capacity_decision_def environ_get_def)
qed

theorem create_for_policy_table_witness:
  "(snd (create_for example_externals example_config [''BASTION_TIER'' \<mapsto> ''0'']
           (example_job TPUGKEJob (Some ''resA'') False) [])
      = [] @ [CreateNodePools example_create_args]
    \<and> [''BASTION_TIER'' \<mapsto> ''0''] ''BASTION_TIER'' = Some ''0''
    \<and> reservation (builder (config (example_job TPUGKEJob (Some ''resA'') False))) = Some ''resA''
    \<and> \<not> cnp_use_spot_vm example_create_args
    \<and> cnp_reservation example_create_args = Some ''resA'')
   \<and> (snd (create_for example_externals example_config [''BASTION_TIER'' \<mapsto> ''1'']
           (example_job TPUGKEJob (Some ''resA'') False) [])
      = [] @ [CreateNodePools
                (example_create_args\<lparr>cnp_use_spot_vm := True, cnp_reservation := None\<rparr>)]
    \<and> [''BASTION_TIER'' \<mapsto> ''1''] ''BASTION_TIER'' = Some ''1''
    \<and> cnp_use_spot_vm (example_create_args\<lparr>cnp_use_spot_vm := True, cnp_reservation := None\<rparr>)
    \<and> cnp_reservation (example_create_args\<lparr>cnp_use_spot_vm := True, cnp_reservation := None\<rparr>)
        = None)
   \<and> (snd (create_for example_externals example_config [''BASTION_TIER'' \<mapsto> ''0'']
           (example_job TPUGKEJob None False) [])
      = [] @ [CreateNodePools
                (example_create_args\<lparr>cnp_use_spot_vm := True, cnp_reservation := None\<rparr>)]
    \<and> reservation (builder (config (example_job TPUGKEJob None False))) = None)"
proof -
  let ?spot = "example_create_args\<lparr>cnp_use_spot_vm := True, cnp_reservation := None\<rparr>"
  have c1: "snd (create_for example_externals example_config [''BASTION_TIER'' \<mapsto> ''0'']
                  (example_job TPUGKEJob (Some ''resA'') False) [])
            = [] @ [CreateNodePools example_create_args]"
    by (simp add: example_defs eval_defs)
  have c2: "snd (create_for example_externals example_config [''BASTION_TIER'' \<mapsto> ''1'']
                  (example_job TPUGKEJob (Some ''resA'') False) [])
            = [] @ [CreateNodePools ?spot]"
    by (simp add: example_defs eval_defs)
  have c3: "snd (create_for example_externals example_config [''BASTION_TIER'' \<mapsto> ''0'']
                  (example_job TPUGKEJob None False) [])
            = [] @ [CreateNodePools ?spot]"
    by (simp add: example_defs eval_defs)
  show ?thesis
    using c1 c2 c3
      create_for_policy_table [OF c1, of "''resA''"]
      create_for_policy_table [OF c2, of "''resA''"]
      create_for_policy_table [OF c3, of "''resA''"]
    by (simp add: example_job_def)
qed

text \<open>
  Claim C3. \<open>use_spot\<close> and a reservation are mutually exclusive in what \<open>create_for\<close>
  passes to the control-plane client: for every job and every value of the tier signal
  (also an absent one), whenever \<open>use_spot_vm\<close> is true the reservation is \<open>None\<close>.
\<close>

theorem create_for_spot_excludes_reservation:
  assumes "snd (create_for ext cfg env j calls) = calls @ [CreateNodePools a]"
    and "cnp_use_spot_vm a"
  shows "cnp_reservation a = None"
proof -
  from assms(1) have "create_for_args ext cfg env j = Inr a"
    by (simp add: create_for_call_iff)
  then have
    "cnp_use_spot_vm a = fst (capacity_decision env (reservation (builder (config j))))"
    "cnp_reservation a = snd (capacity_decision env (reservation (builder (config j))))"
    by (auto dest: create_for_args_InrD)
  with assms(2) show ?thesis
    by (simp add: capacity_decision_def split: if_splits)
qed

theorem create_for_spot_excludes_reservation_witness:
  "snd (create_for example_externals example_config [''BASTION_TIER'' \<mapsto> ''2'']
          (example_job FlinkTPUGKEJob (Some ''resA'') False) [])
     = [] @ [CreateNodePools
               (example_create_args
                  \<lparr>cnp_topology := None, cnp_use_spot_vm := True, cnp_reservation := None\<rparr>)]
   \<and> cnp_use_spot_vm
       (example_create_args
          \<lparr>cnp_topology := None, cnp_use_spot_vm := True, cnp_reservation := None\<rparr>)
   \<and> cnp_reservation
       (example_create_args
          \<lparr>cnp_topology := None, cnp_use_spot_vm := True, cnp_reservation := None\<rparr>) = None"
proof -
  let ?a = "example_create_args
              \<lparr>cnp_topology := None, cnp_use_spot_vm := True, cnp_reservation := None\<rparr>"
  have call: "snd (create_for example_externals example_config [''BASTION_TIER'' \<mapsto> ''2'']
                     (example_job FlinkTPUGKEJob (Some ''resA'') False) [])
              = [] @ [CreateNodePools ?a]"
    by (simp add: example_defs eval_defs)
  have spot: "cnp_use_spot_vm ?a"
    by simp
  show ?thesis
    using call spot create_for_spot_excludes_reservation [OF call spot] by simp
qed

text \<open>
  Claim C2. The claim reads: when the tier signal is absent, a job with a reservation is
  treated as top tier and gets (no spot, its reservation). In the code the default of
  \<^verbatim>\<open>os.environ.get("BASTION_TIER", 0)\<close> is the integer \<open>0\<close>, which the comparison
  \<^verbatim>\<open>tier == "0"\<close> with a string rejects. The sample job with reservation \<open>resA\<close>, run
  with an empty environment, gets spot capacity and no reservation.
\<close>

theorem create_for_absent_tier_example:
  "map_sum id (\<lambda>a. (cnp_use_spot_vm a, cnp_reservation a))
     (create_for_args example_externals example_config Map.empty
        (example_job TPUGKEJob (Some ''resA'') False))
   = Inr (True, None)"
  by (simp add: example_defs eval_defs)

subsection \<open>Pool names\<close>

text \<open>
  Claim C4. Determinism of the names: when \<open>create_for\<close> passes a list of pool names to
  the create path for a job, \<open>delete_for\<close>, on every invocation (any configuration,
  environment and call history) for a supported job with the same namespace, name and number
  of replicas, reaches the delete path and passes the identical ordered list.
\<close>

theorem create_for_delete_for_same_names:
  assumes "snd (create_for ext cfg env j calls) = calls @ [CreateNodePools a]"
    and "isinstance j' PRE_PROVISIONER_SUPPORTED_JOBS"
    and "namespace (config j') = namespace (config j)"
    and "name (config j') = name (config j)"
    and "num_replicas (accelerator (builder (config j')))
         = num_replicas (accelerator (builder (config j)))"
  shows "\<exists>d. snd (delete_for ext cfg' env' j' calls') = calls' @ [DeleteNodePools d]
             \<and> dnp_node_pool_names d = cnp_node_pool_names a"
proof -
  let ?n = "range_py (num_replicas (accelerator (builder (config j))))"
  let ?f = "construct_node_pool_name ext (namespace (config j)) (name (config j))"
  from assms(1) have "create_for_args ext cfg env j = Inr a"
    by (simp add: create_for_call_iff)
  then obtain p ls where
    "create_for_loop ext (config j) p (enable_tpu_smart_repair (builder (config j))) ?n ([], [])
     = Inr (cnp_node_pool_names a, ls)"
    by (auto dest: create_for_args_InrD)
  then have names: "map Inr (cnp_node_pool_names a) = map ?f ?n"
    by (auto dest: create_for_loop_Inr)
  then have "\<forall>i \<in> set ?n. \<exists>nm. ?f i = Inr nm"
    by (metis (no_types, lifting) imageE image_eqI list.set_map)
  then have "\<forall>i \<in> set ?n. \<exists>nm.
      construct_node_pool_name ext (namespace (config j')) (name (config j')) i = Inr nm"
    by (simp add: assms(3,4))
  then obtain ns where del: "delete_for_loop ext (config j') ?n [] = Inr ns"
    using delete_for_loop_total by blast
  then have "map Inr ns = map ?f ?n"
    using assms(3,4) by (auto dest: delete_for_loop_Inr)
  with names have "map (Inr :: string \<Rightarrow> error + string) ns = map Inr (cnp_node_pool_names a)"
    by simp
  then have eq: "ns = cnp_node_pool_names a"
    by (simp add: inj_map_eq_map)
  from del assms(2,5) have
    "delete_for_args ext cfg' env' j' =
       Inr \<lparr>dnp_node_pool_names = ns, dnp_project = project cfg', dnp_zone = zone cfg',
            dnp_cluster = cluster cfg', dnp_retry_interval = retry_interval cfg',
            dnp_wait_timeout = wait_timeout cfg'\<rparr>"
    by (simp add: delete_for_args_def Let_def)
  then show ?thesis
    using eq by (simp add: delete_for_def)
qed

theorem create_for_delete_for_same_names_witness:
  "snd (create_for example_externals example_config [''BASTION_TIER'' \<mapsto> ''0'']
          (example_job TPUGKEJob (Some ''resA'') False) [])
     = [] @ [CreateNodePools example_create_args]
   \<and> isinstance (example_job FlinkTPUGKEJob None True) PRE_PROVISIONER_SUPPORTED_JOBS
   \<and> snd (delete_for example_externals example_config Map.empty
            (example_job FlinkTPUGKEJob None True) [CreateNodePools example_create_args])
     = [CreateNodePools example_create_args] @ [DeleteNodePools example_delete_args]
   \<and> dnp_node_pool_names example_delete_args = cnp_node_pool_names example_create_args"
proof -
  have call: "snd (create_for example_externals example_config [''BASTION_TIER'' \<mapsto> ''0'']
                     (example_job TPUGKEJob (Some ''resA'') False) [])
              = [] @ [CreateNodePools example_create_args]"
    by (simp add: example_defs eval_defs)
  have sup: "isinstance (example_job FlinkTPUGKEJob None True) PRE_PROVISIONER_SUPPORTED_JOBS"
    by (simp add: example_defs eval_defs)
  have del: "snd (delete_for example_externals example_config Map.empty
            (example_job FlinkTPUGKEJob None True) [CreateNodePools example_create_args])
     = [CreateNodePools example_create_args] @ [DeleteNodePools example_delete_args]"
    by (simp add: example_defs eval_defs)
  show ?thesis
    using call sup del
      create_for_delete_for_same_names [OF call sup, of example_config Map.empty
        "[CreateNodePools example_create_args]"]
    by (simp add: example_job_def)
qed

subsection \<open>The digest\<close>

text \<open>The model of SHA-1 computes the digest that the standard gives for the message
  \<open>abc\<close>; the computation is replayed step by step: padding, message schedule, the 80
  rounds in four parts, the final addition.\<close>

lemma replicate_52_zero:
  "replicate 52 (0 :: 8 word) =
     [0, 0, 0, 0, 0, 0, 0, 0, 0, 0, 0, 0, 0, 0, 0, 0, 0, 0, 0, 0,
      0, 0, 0, 0, 0, 0, 0, 0, 0, 0, 0, 0, 0, 0, 0, 0, 0, 0, 0, 0,
      0, 0, 0, 0, 0, 0, 0, 0, 0, 0, 0, 0]"
  by (simp add: numeral_eq_Suc)

lemma abc_words: "be32s (sha1_pad (encode ''abc'')) = abc_block"
  by (simp add: encode_def sha1_pad_def be64_def replicate_52_zero abc_block_def)

lemma sha1_schedule_numeral:
  "sha1_schedule (numeral k) w =
     sha1_schedule (pred_numeral k)
       (w @ [rotl32 1 (w ! (length w - 3) XOR w ! (length w - 8) XOR w ! (length w - 14)
                        XOR w ! (length w - 16))])"
  by (simp add: numeral_eq_Suc Let_def)

lemma abc_schedule: "sha1_schedule 64 abc_block = abc_schedule"
  by (simp add: abc_block_def abc_schedule_def sha1_schedule_numeral rotl32_def)

lemma abc_rounds_20:
  "fold (sha1_round abc_schedule) [0..<20]
     (0x67452301, 0xEFCDAB89, 0x98BADCFE, 0x10325476, 0xC3D2E1F0)
   = (0xFD9E1D7D, 0xDC64901D, 0x20AA99CA, 0xD3A49608, 0xC82F758B)"
  by (simp add: abc_schedule_def upt_rec sha1_f_def sha1_k_def rotl32_def)

lemma abc_rounds_40:
  "fold (sha1_round abc_schedule) [20..<40]
     (0xFD9E1D7D, 0xDC64901D, 0x20AA99CA, 0xD3A49608, 0xC82F758B)
   = (0x32DE1CBA, 0x4C986405, 0xF718E5CF, 0x03D447F6, 0xF72EEC32)"
  by (simp add: abc_schedule_def upt_rec sha1_f_def sha1_k_def rotl32_def)

lemma abc_rounds_60:
  "fold (sha1_round abc_schedule) [40..<60]
     (0x32DE1CBA, 0x4C986405, 0xF718E5CF, 0x03D447F6, 0xF72EEC32)
   = (0x3F52DE5A, 0x09D785FD, 0x3498BFD4, 0xF211824F, 0xD79915AB)"
  by (simp add: abc_schedule_def upt_rec sha1_f_def sha1_k_def rotl32_def)

lemma abc_rounds_80:
  "fold (sha1_round abc_schedule) [60..<80]
     (0x3F52DE5A, 0x09D785FD, 0x3498BFD4, 0xF211824F, 0xD79915AB)
   = (0x42541B35, 0x5738D5E1, 0x21834873, 0x681E6DF6, 0xD8FDF6AD)"
  by (simp add: abc_schedule_def upt_rec sha1_f_def sha1_k_def rotl32_def)

lemma upt_80: "[0..<80] = [0..<20] @ [20..<40] @ [40..<60] @ [60..<80]"
  by (simp add: upt_rec)

lemma abc_rounds:
  "fold (sha1_round abc_schedule) [0..<80]
     (0x67452301, 0xEFCDAB89, 0x98BADCFE, 0x10325476, 0xC3D2E1F0)
   = (0x42541B35, 0x5738D5E1, 0x21834873, 0x681E6DF6, 0xD8FDF6AD)"
  by (simp only: upt_80 fold_append o_apply
      abc_rounds_20 abc_rounds_40 abc_rounds_60 abc_rounds_80)

lemma abc_compress:
  "sha1_compress (0x67452301, 0xEFCDAB89, 0x98BADCFE, 0x10325476, 0xC3D2E1F0) abc_block
   = (0xA9993E36, 0x4706816A, 0xBA3E2571, 0x7850C26C, 0x9CD0D89D)"
proof -
  have "sha1_compress (0x67452301, 0xEFCDAB89, 0x98BADCFE, 0x10325476, 0xC3D2E1F0) abc_block
        = (case (0x42541B35, 0x5738D5E1, 0x21834873, 0x681E6DF6, 0xD8FDF6AD) of
             (a, b, c, d, e) \<Rightarrow>
               (0x67452301 + a, 0xEFCDAB89 + b, 0x98BADCFE + c, 0x10325476 + d, 0xC3D2E1F0 + e))"
    by (simp only: sha1_compress.simps abc_schedule abc_rounds)
  also have "\<dots> = (0xA9993E36, 0x4706816A, 0xBA3E2571, 0x7850C26C, 0x9CD0D89D)"
    by simp
  finally show ?thesis .
qed

lemma abc_state:
  "sha1 (encode ''abc'') = (0xA9993E36, 0x4706816A, 0xBA3E2571, 0x7850C26C, 0x9CD0D89D)"
proof -
  have "length abc_block = 16"
    by (simp add: abc_block_def)
  then have "sha1_blocks h abc_block = sha1_compress h abc_block" for h
    by (simp add: sha1_blocks.simps [of _ abc_block] sha1_blocks.simps [of _ "[]"])
  then show ?thesis
    by (simp only: sha1_def abc_words abc_compress)
qed

text \<open>The test vector of the standard: the digest of \<open>abc\<close>.\<close>

lemma sha1_abc: "hexdigest (sha1 (encode ''abc'')) = ''a9993e364706816aba3e25717850c26c9cd0d89d''"
  by (simp add: abc_state hexdigest_def hex32_def hex_digit_def)

subsection \<open>Labels\<close>

lemma hex_digit_range: "n < 16 \<Longrightarrow> hex_digit n \<in> set ''0123456789abcdef''"
  unfolding hex_digit_def by (rule nth_mem) simp

lemma nibble_bound: "unat ((w :: u32) AND 0xF) < 16"
proof -
  have "unat (w AND 0xF) \<le> unat (0xF :: u32)"
    by (rule word_and_le1 [THEN word_le_nat_alt [THEN iffD1]])
  then show ?thesis by simp
qed

lemma length_hex32: "length (hex32 w) = 8"
  by (simp add: hex32_def)

lemma set_hex32: "set (hex32 w) \<subseteq> set ''0123456789abcdef''"
  unfolding hex32_def using hex_digit_range [OF nibble_bound] by auto

lemma length_hexdigest: "length (hexdigest h) = 40"
  by (cases h) (simp add: hexdigest_def length_hex32)

lemma set_hexdigest: "set (hexdigest h) \<subseteq> set ''0123456789abcdef''"
proof (cases h)
  case (fields a b c d e)
  then show ?thesis
    using set_hex32 [of a] set_hex32 [of b] set_hex32 [of c] set_hex32 [of d] set_hex32 [of e]
    by (simp add: hexdigest_def)
qed

lemma create_for_labels:
  assumes "create_for_args ext cfg env j = Inr a"
  shows "\<exists>p. job_priority_from_env ext env = Inr p \<and>
           cnp_additional_labels_list a =
             map (additional_labels (config j) p (enable_tpu_smart_repair (builder (config j))))
               (range_py (num_replicas (accelerator (builder (config j)))))"
proof -
  from create_for_args_InrD [OF assms] obtain p ns ls where
    p: "job_priority_from_env ext env = Inr p"
    and loop: "create_for_loop ext (config j) p (enable_tpu_smart_repair (builder (config j)))
         (range_py (num_replicas (accelerator (builder (config j))))) ([], []) = Inr (ns, ls)"
    and ls: "cnp_additional_labels_list a = ls"
    by blast
  from create_for_loop_Inr [OF loop] ls p show ?thesis by simp
qed

lemma create_for_labels_nth:
  assumes "create_for_args ext cfg env j = Inr a"
    and "i < nat (num_replicas (accelerator (builder (config j))))"
  shows "\<exists>p. job_priority_from_env ext env = Inr p \<and>
           i < length (cnp_additional_labels_list a) \<and>
           cnp_additional_labels_list a ! i =
             additional_labels (config j) p (enable_tpu_smart_repair (builder (config j))) i"
  using create_for_labels [OF assms(1)] assms(2) by (auto simp: range_py_def)

lemma job_priority_from_env_Some:
  "job_priority_from_env ext env = Inr (Some p) \<longleftrightarrow>
   (\<exists>s spec. env (BASTION_SERIALIZED_JOBSPEC_ENV_VAR ext) = Some s \<and> s \<noteq> [] \<and>
      deserialize_jobspec ext s = Inr spec \<and> priority (metadata spec) = Some p)"
  by (auto simp: job_priority_from_env_def split: option.splits sum.splits)

lemma job_priority_from_env_None:
  "job_priority_from_env ext env = Inr None \<longleftrightarrow>
   env (BASTION_SERIALIZED_JOBSPEC_ENV_VAR ext) = None
   \<or> env (BASTION_SERIALIZED_JOBSPEC_ENV_VAR ext) = Some []
   \<or> (\<exists>s spec. env (BASTION_SERIALIZED_JOBSPEC_ENV_VAR ext) = Some s \<and>
         deserialize_jobspec ext s = Inr spec \<and> priority (metadata spec) = None)"
  by (auto simp: job_priority_from_env_def split: option.splits sum.splits)

text \<open>
  Claim C5. For every replica index \<open>i\<close> below the number of node pools, the labels that
  \<open>create_for\<close> builds for pool \<open>i\<close> have, under the key \<open>job-key\<close>, the SHA-1 digest of
  the string \<open>"{namespace}/{job_name}-job-{i}"\<close> in hexadecimal: 40 hexadecimal digits, that
  is 160 bits.
\<close>

theorem create_for_job_key_label:
  assumes "snd (create_for ext cfg env j calls) = calls @ [CreateNodePools a]"
    and "i < nat (num_replicas (accelerator (builder (config j))))"
  shows "i < length (cnp_additional_labels_list a)
       \<and> (cnp_additional_labels_list a ! i) ''job-key'' = Some (job_key (config j) i)
       \<and> job_key (config j) i =
           hexdigest (sha1 (encode
             (namespace (config j) @ ''/'' @ name (config j) @ ''-job-'' @ str_nat i)))
       \<and> length (job_key (config j) i) = 40
       \<and> set (job_key (config j) i) \<subseteq> set ''0123456789abcdef''"
proof -
  from assms(1) have "create_for_args ext cfg env j = Inr a"
    by (simp add: create_for_call_iff)
  from create_for_labels_nth [OF this assms(2)] obtain p where
    len: "i < length (cnp_additional_labels_list a)"
    and nth: "cnp_additional_labels_list a ! i =
       additional_labels (config j) p (enable_tpu_smart_repair (builder (config j))) i"
    by blast
  have "additional_labels (config j) p (enable_tpu_smart_repair (builder (config j))) i ''job-key''
        = Some (job_key (config j) i)"
    by (simp add: additional_labels_def Let_def split: option.splits)
  with len nth show ?thesis
    using set_hexdigest by (simp add: job_key_def length_hexdigest)
qed

theorem create_for_job_key_label_witness:
  "snd (create_for example_externals example_config [''BASTION_TIER'' \<mapsto> ''0'']
          (example_job TPUGKEJob (Some ''resA'') False) [])
     = [] @ [CreateNodePools example_create_args]
   \<and> (1::nat) < nat (num_replicas (accelerator (builder (config
         (example_job TPUGKEJob (Some ''resA'') False)))))
   \<and> (1::nat) < length (cnp_additional_labels_list example_create_args)
   \<and> (cnp_additional_labels_list example_create_args ! 1) ''job-key''
       = Some (hexdigest (sha1 (encode ''ns1/job1-job-1'')))
   \<and> length (hexdigest (sha1 (encode ''ns1/job1-job-1''))) = 40"
proof -
  have call: "snd (create_for example_externals example_config [''BASTION_TIER'' \<mapsto> ''0'']
                     (example_job TPUGKEJob (Some ''resA'') False) [])
              = [] @ [CreateNodePools example_create_args]"
    by (simp add: example_defs eval_defs)
  have idx: "(1::nat) < nat (num_replicas (accelerator (builder (config
         (example_job TPUGKEJob (Some ''resA'') False)))))"
    by (simp add: example_job_def)
  have key: "job_key (config (example_job TPUGKEJob (Some ''resA'') False)) 1
             = hexdigest (sha1 (encode ''ns1/job1-job-1''))"
    by (simp add: example_job_def job_key_def str_nat.simps digit_char_def)
  show ?thesis
    using call idx create_for_job_key_label [OF call idx] unfolding key
    by (simp add: example_job_def str_nat.simps digit_char_def)
qed

text \<open>
  Claim C6. For the labels of every pool built by \<open>create_for\<close>: if the auto-repair flag
  of the job is set, they map the auto-restart key to \<open>"true"\<close>; if a priority \<open>p\<close> was
  resolved from the job descriptor, they map the priority key to \<open>str(p)\<close>; if no priority
  was resolved, they have no priority key.
\<close>

theorem create_for_label_presence:
  assumes "snd (create_for ext cfg env j calls) = calls @ [CreateNodePools a]"
    and "i < length (cnp_additional_labels_list a)"
  shows "(enable_tpu_smart_repair (builder (config j)) \<longrightarrow>
            (cnp_additional_labels_list a ! i) ''cloud.google.com/gke-tpu-auto-restart''
              = Some ''true'')
       \<and> (\<forall>p. job_priority_from_env ext env = Inr (Some p) \<longrightarrow>
            (cnp_additional_labels_list a ! i) ''job-priority'' = Some (str_int p))
       \<and> (job_priority_from_env ext env = Inr None \<longrightarrow>
            (cnp_additional_labels_list a ! i) ''job-priority'' = None)"
proof -
  from assms(1) have args: "create_for_args ext cfg env j = Inr a"
    by (simp add: create_for_call_iff)
  from create_for_labels [OF args] assms(2) obtain p where
    p: "job_priority_from_env ext env = Inr p"
    and nth: "cnp_additional_labels_list a ! i =
       additional_labels (config j) p (enable_tpu_smart_repair (builder (config j)))
         (range_py (num_replicas (accelerator (builder (config j)))) ! i)"
    by auto
  show ?thesis
    by (simp add: nth p additional_labels_def Let_def split: option.splits)
qed

theorem create_for_label_presence_witness:
  "(snd (create_for example_externals example_config
           [''BASTION_TIER'' \<mapsto> ''0'', ''JOBSPEC'' \<mapsto> ''spec'']
           (example_job TPUGKEJob (Some ''resA'') True) [])
      = [] @ [CreateNodePools (example_create_args\<lparr>cnp_additional_labels_list :=
           [[''job-key'' \<mapsto> hexdigest (sha1 (encode ''ns1/job1-job-0'')),
             ''job-priority'' \<mapsto> ''5'',
             ''cloud.google.com/gke-tpu-auto-restart'' \<mapsto> ''true''],
            [''job-key'' \<mapsto> hexdigest (sha1 (encode ''ns1/job1-job-1'')),
             ''job-priority'' \<mapsto> ''5'',
             ''cloud.google.com/gke-tpu-auto-restart'' \<mapsto> ''true'']]\<rparr>)]
    \<and> enable_tpu_smart_repair (builder (config (example_job TPUGKEJob (Some ''resA'') True)))
    \<and> job_priority_from_env example_externals
          [''BASTION_TIER'' \<mapsto> ''0'', ''JOBSPEC'' \<mapsto> ''spec''] = Inr (Some 5)
    \<and> [''job-key'' \<mapsto> hexdigest (sha1 (encode ''ns1/job1-job-1'')),
        ''job-priority'' \<mapsto> ''5'',
        ''cloud.google.com/gke-tpu-auto-restart'' \<mapsto> ''true'']
         ''cloud.google.com/gke-tpu-auto-restart'' = Some ''true''
    \<and> [''job-key'' \<mapsto> hexdigest (sha1 (encode ''ns1/job1-job-1'')),
        ''job-priority'' \<mapsto> ''5'',
        ''cloud.google.com/gke-tpu-auto-restart'' \<mapsto> ''true'']
         ''job-priority'' = Some (str_int 5)
    \<and> str_int 5 = ''5'')
   \<and> (snd (create_for example_externals example_config [''BASTION_TIER'' \<mapsto> ''0'']
           (example_job TPUGKEJob (Some ''resA'') False) [])
      = [] @ [CreateNodePools example_create_args]
    \<and> job_priority_from_env example_externals [''BASTION_TIER'' \<mapsto> ''0''] = Inr None
    \<and> (cnp_additional_labels_list example_create_args ! 1) ''job-priority'' = None)"
proof -
  let ?labels = "[[''job-key'' \<mapsto> hexdigest (sha1 (encode ''ns1/job1-job-0'')),
             ''job-priority'' \<mapsto> ''5'',
             ''cloud.google.com/gke-tpu-auto-restart'' \<mapsto> ''true''],
            [''job-key'' \<mapsto> hexdigest (sha1 (encode ''ns1/job1-job-1'')),
             ''job-priority'' \<mapsto> ''5'',
             ''cloud.google.com/gke-tpu-auto-restart'' \<mapsto> ''true'']]"
  let ?a = "example_create_args\<lparr>cnp_additional_labels_list := ?labels\<rparr>"
  have c1: "snd (create_for example_externals example_config
                   [''BASTION_TIER'' \<mapsto> ''0'', ''JOBSPEC'' \<mapsto> ''spec'']
                   (example_job TPUGKEJob (Some ''resA'') True) [])
            = [] @ [CreateNodePools ?a]"
    by (simp add: example_defs eval_defs)
  have i1: "1 < length (cnp_additional_labels_list ?a)"
    by simp
  have p1: "job_priority_from_env example_externals
              [''BASTION_TIER'' \<mapsto> ''0'', ''JOBSPEC'' \<mapsto> ''spec''] = Inr (Some 5)"
    by (simp add: example_externals_def job_priority_from_env_def)
  have c2: "snd (create_for example_externals example_config [''BASTION_TIER'' \<mapsto> ''0'']
                   (example_job TPUGKEJob (Some ''resA'') False) [])
            = [] @ [CreateNodePools example_create_args]"
    by (simp add: example_defs eval_defs)
  have i2: "1 < length (cnp_additional_labels_list example_create_args)"
    by (simp add: example_create_args_def)
  have p2: "job_priority_from_env example_externals [''BASTION_TIER'' \<mapsto> ''0''] = Inr None"
    by (simp add: example_externals_def job_priority_from_env_def)
  have s5: "str_int 5 = ''5''"
    by (simp add: str_int_def str_nat.simps digit_char_def)
  show ?thesis
    using c1 p1 c2 p2 s5
      create_for_label_presence [OF c1 i1] create_for_label_presence [OF c2 i2]
    by (simp add: example_job_def)
qed

subsection \<open>Topology\<close>

text \<open>
  Claim C7. For every job that \<open>create_for\<close> accepts: the topology passed to the create
  call is \<open>None\<close> for an inference job, and otherwise the topology of the catalog entry of
  the accelerator type of the job.
\<close>

theorem create_for_topology:
  assumes "snd (create_for ext cfg env j calls) = calls @ [CreateNodePools a]"
  shows "(isinstance j INFERENCE_JOBS \<longrightarrow> cnp_topology a = None)
       \<and> (\<not> isinstance j INFERENCE_JOBS \<longrightarrow>
            (\<exists>tpu_type shape.
               infer_tpu_type ext (instance_type (accelerator (builder (config j)))) = Inr tpu_type
               \<and> USER_FACING_NAME_TO_SYSTEM_CHARACTERISTICS ext tpu_type = Some shape
               \<and> cnp_topology a = Some (topology shape)))"
proof -
  from assms have "create_for_args ext cfg env j = Inr a"
    by (simp add: create_for_call_iff)
  from create_for_args_InrD [OF this] show ?thesis
    by auto
qed

theorem create_for_topology_witness:
  "(snd (create_for example_externals example_config [''BASTION_TIER'' \<mapsto> ''0'']
           (example_job FlinkTPUGKEJob (Some ''resA'') False) [])
      = [] @ [CreateNodePools (example_create_args\<lparr>cnp_topology := None\<rparr>)]
    \<and> isinstance (example_job FlinkTPUGKEJob (Some ''resA'') False) INFERENCE_JOBS
    \<and> cnp_topology (example_create_args\<lparr>cnp_topology := None\<rparr>) = None)
   \<and> (snd (create_for example_externals example_config [''BASTION_TIER'' \<mapsto> ''0'']
           (example_job TPUGKEJob (Some ''resA'') False) [])
      = [] @ [CreateNodePools example_create_args]
    \<and> \<not> isinstance (example_job TPUGKEJob (Some ''resA'') False) INFERENCE_JOBS
    \<and> infer_tpu_type example_externals (instance_type (accelerator (builder (config
         (example_job TPUGKEJob (Some ''resA'') False))))) = Inr ''v5''
    \<and> map_option topology (USER_FACING_NAME_TO_SYSTEM_CHARACTERISTICS example_externals ''v5'')
        = Some ''2x2''
    \<and> cnp_topology example_create_args = Some ''2x2'')"
proof -
  have c1: "snd (create_for example_externals example_config [''BASTION_TIER'' \<mapsto> ''0'']
                   (example_job FlinkTPUGKEJob (Some ''resA'') False) [])
            = [] @ [CreateNodePools (example_create_args\<lparr>cnp_topology := None\<rparr>)]"
    by (simp add: example_defs eval_defs)
  have c2: "snd (create_for example_externals example_config [''BASTION_TIER'' \<mapsto> ''0'']
                   (example_job TPUGKEJob (Some ''resA'') False) [])
            = [] @ [CreateNodePools example_create_args]"
    by (simp add: example_defs eval_defs)
  show ?thesis
    using c1 c2 create_for_topology [OF c1] create_for_topology [OF c2]
    by (simp add: example_defs isinstance_def INFERENCE_JOBS_def)
qed

subsection \<open>Errors\<close>

text \<open>
  Claim C8. When the accelerator type of the job is not in the catalog, \<open>create_for\<close> ends
  with an exception and the control plane has received no call; for a job of a supported
  class the exception is the \<open>KeyError\<close> of the catalog lookup. This holds whatever the naming
  function and the deserialization of the job descriptor would do, so neither is reached:
  in the example that follows both would raise.
\<close>

theorem create_for_unknown_accelerator:
  assumes "infer_tpu_type ext (instance_type (accelerator (builder (config j)))) = Inr tpu_type"
    and "USER_FACING_NAME_TO_SYSTEM_CHARACTERISTICS ext tpu_type = None"
  shows "(\<exists>e. create_for ext cfg env j calls = (Inl e, calls))
       \<and> (isinstance j PRE_PROVISIONER_SUPPORTED_JOBS \<longrightarrow>
            create_for ext cfg env j calls = (Inl (KeyError tpu_type), calls))"
  using assms by (simp add: create_for_def create_for_args_def Let_def)

theorem create_for_unknown_accelerator_witness:
  "infer_tpu_type failing_externals (instance_type (accelerator (builder (config
      (example_job TPUGKEJob (Some ''resA'') True))))) = Inr ''v5''
   \<and> USER_FACING_NAME_TO_SYSTEM_CHARACTERISTICS failing_externals ''v5'' = None
   \<and> isinstance (example_job TPUGKEJob (Some ''resA'') True) PRE_PROVISIONER_SUPPORTED_JOBS
   \<and> construct_node_pool_name failing_externals ''ns1'' ''job1'' 0
       = Inl (Raised ''construct_node_pool_name'')
   \<and> create_for failing_externals example_config
        [''BASTION_TIER'' \<mapsto> ''0'', ''JOBSPEC'' \<mapsto> ''spec'']
        (example_job TPUGKEJob (Some ''resA'') True) [] = (Inl (KeyError ''v5''), [])"
proof -
  have infer: "infer_tpu_type failing_externals (instance_type (accelerator (builder (config
      (example_job TPUGKEJob (Some ''resA'') True))))) = Inr ''v5''"
    by (simp add: example_defs)
  have miss: "USER_FACING_NAME_TO_SYSTEM_CHARACTERISTICS failing_externals ''v5'' = None"
    by (simp add: example_defs)
  show ?thesis
    using infer miss
      create_for_unknown_accelerator [OF infer miss, of example_config
        "[''BASTION_TIER'' \<mapsto> ''0'', ''JOBSPEC'' \<mapsto> ''spec'']" "[]"]
    by (simp add: example_defs isinstance_def PRE_PROVISIONER_SUPPORTED_JOBS_def)
qed

text \<open>
  Claim C9. For an argument that is not an instance of a supported job class, \<open>create_for\<close>
  and \<open>delete_for\<close> both raise \<open>TypeError\<close>, and the control plane has received no call.
  No pool name is derived: the result does not depend on the naming function, which raises
  on every input in the example that follows.
\<close>

theorem unsupported_job_type_error:
  assumes "\<not> isinstance j PRE_PROVISIONER_SUPPORTED_JOBS"
  shows "create_for ext cfg env j calls = (Inl (TypeError (type_of j)), calls)
       \<and> delete_for ext cfg env j calls = (Inl (TypeError (type_of j)), calls)"
  using assms
  by (simp add: create_for_def create_for_args_def delete_for_def delete_for_args_def)

theorem unsupported_job_type_error_witness:
  "\<not> isinstance (example_job (OtherClass ''GPUGKEJob'') None False) PRE_PROVISIONER_SUPPORTED_JOBS
   \<and> create_for failing_externals example_config Map.empty
        (example_job (OtherClass ''GPUGKEJob'') None False) []
       = (Inl (TypeError (OtherClass ''GPUGKEJob'')), [])
   \<and> delete_for failing_externals example_config Map.empty
        (example_job (OtherClass ''GPUGKEJob'') None False) []
       = (Inl (TypeError (OtherClass ''GPUGKEJob'')), [])"
proof -
  have unsup: "\<not> isinstance (example_job (OtherClass ''GPUGKEJob'') None False)
                   PRE_PROVISIONER_SUPPORTED_JOBS"
    by (simp add: example_job_def isinstance_def PRE_PROVISIONER_SUPPORTED_JOBS_def)
  show ?thesis
    using unsup
      unsupported_job_type_error [OF unsup, of failing_externals example_config Map.empty "[]"]
    by (simp add: example_job_def)
qed

subsection \<open>What \<open>delete_for\<close> depends on\<close>

text \<open>
  Claim C10. For supported jobs, what \<open>delete_for\<close> passes as pool names (or the exception
  of the naming function) is the same for two runs whose jobs agree on namespace, name and
  number of replicas, whatever the accelerator types, reservations, flags, configurations,
  environments and catalogs of the two runs. The catalog is not consulted: whenever the
  naming function returns a name for every index, \<open>delete_for\<close> reaches the delete path
  with exactly these names, also when the accelerator type of the job is not in the catalog
  (as in the example that follows, where \<open>create_for\<close> raises \<open>KeyError\<close> for the same
  job).
\<close>

theorem delete_for_names_depend_on_identity_only:
  assumes "isinstance j PRE_PROVISIONER_SUPPORTED_JOBS"
    and "isinstance j' PRE_PROVISIONER_SUPPORTED_JOBS"
    and "namespace (config j') = namespace (config j)"
    and "name (config j') = name (config j)"
    and "num_replicas (accelerator (builder (config j')))
         = num_replicas (accelerator (builder (config j)))"
    and "construct_node_pool_name ext' = construct_node_pool_name ext"
  shows "map_sum id dnp_node_pool_names (delete_for_args ext' cfg' env' j')
           = map_sum id dnp_node_pool_names (delete_for_args ext cfg env j)
       \<and> ((\<forall>i < nat (num_replicas (accelerator (builder (config j)))).
              construct_node_pool_name ext (namespace (config j)) (name (config j)) i
                = Inr (pool_name i)) \<longrightarrow>
           (\<exists>d. snd (delete_for ext cfg env j calls) = calls @ [DeleteNodePools d]
                \<and> dnp_node_pool_names d
                    = map pool_name [0..<nat (num_replicas (accelerator (builder (config j))))]))"
proof -
  let ?n = "range_py (num_replicas (accelerator (builder (config j))))"
  have same: "delete_for_loop ext' (config j') ?n [] = delete_for_loop ext (config j) ?n []"
    using assms(3,4,6) by (intro delete_for_loop_cong) simp_all
  have first: "map_sum id dnp_node_pool_names (delete_for_args ext' cfg' env' j')
           = map_sum id dnp_node_pool_names (delete_for_args ext cfg env j)"
    using assms(1,2,5) same
    by (simp add: delete_for_args_def Let_def split: sum.splits)
  have second: "\<exists>d. snd (delete_for ext cfg env j calls) = calls @ [DeleteNodePools d]
                \<and> dnp_node_pool_names d
                    = map pool_name [0..<nat (num_replicas (accelerator (builder (config j))))]"
    if ok: "\<forall>i < nat (num_replicas (accelerator (builder (config j)))).
              construct_node_pool_name ext (namespace (config j)) (name (config j)) i
                = Inr (pool_name i)"
  proof -
    from ok have "\<forall>i \<in> set ?n. \<exists>nm.
        construct_node_pool_name ext (namespace (config j)) (name (config j)) i = Inr nm"
      by (simp add: range_py_def)
    then obtain ns where loop: "delete_for_loop ext (config j) ?n [] = Inr ns"
      using delete_for_loop_total by blast
    from delete_for_loop_Inr [OF loop] ok
    have "map (Inr :: string \<Rightarrow> error + string) ns = map Inr (map pool_name [0..<nat (num_replicas (accelerator (builder (config j))))])"
      by (simp add: range_py_def)
    then have "ns = map pool_name [0..<nat (num_replicas (accelerator (builder (config j))))]"
      by (simp only: inj_map_eq_map [OF inj_Inr])
    with loop assms(1) show ?thesis
      by (simp add: delete_for_def delete_for_args_def Let_def)
  qed
  from first second show ?thesis by blast
qed

theorem delete_for_names_depend_on_identity_only_witness:
  "isinstance (example_job TPUGKEJob (Some ''resA'') True) PRE_PROVISIONER_SUPPORTED_JOBS
   \<and> isinstance
        \<lparr>type_of = FlinkTPUGKEJob,
         config = \<lparr>namespace = ''ns1'', name = ''job1'',
                   builder = \<lparr>accelerator = \<lparr>instance_type = ''v4'', num_replicas = 2\<rparr>,
                              reservation = None, location_hint = Some ''hint'',
                              enable_tpu_ici_resiliency = True,
                              enable_tpu_smart_repair = False\<rparr>\<rparr>\<rparr>
        PRE_PROVISIONER_SUPPORTED_JOBS
   \<and> USER_FACING_NAME_TO_SYSTEM_CHARACTERISTICS
        (example_externals\<lparr>USER_FACING_NAME_TO_SYSTEM_CHARACTERISTICS := Map.empty\<rparr>) ''v5''
       = None
   \<and> fst (create_for
             (example_externals\<lparr>USER_FACING_NAME_TO_SYSTEM_CHARACTERISTICS := Map.empty\<rparr>)
             example_config Map.empty (example_job TPUGKEJob (Some ''resA'') True) [])
       = Inl (KeyError ''v5'')
   \<and> map_sum id dnp_node_pool_names
        (delete_for_args
           (example_externals\<lparr>USER_FACING_NAME_TO_SYSTEM_CHARACTERISTICS := Map.empty\<rparr>)
           example_config Map.empty (example_job TPUGKEJob (Some ''resA'') True))
       = Inr [''ns1-job1-0'', ''ns1-job1-1'']
   \<and> map_sum id dnp_node_pool_names
        (delete_for_args example_externals (example_config\<lparr>project := ''other''\<rparr>)
           [''BASTION_TIER'' \<mapsto> ''1'', ''JOBSPEC'' \<mapsto> ''spec'']
           \<lparr>type_of = FlinkTPUGKEJob,
            config = \<lparr>namespace = ''ns1'', name = ''job1'',
                      builder = \<lparr>accelerator = \<lparr>instance_type = ''v4'', num_replicas = 2\<rparr>,
                                 reservation = None, location_hint = Some ''hint'',
                                 enable_tpu_ici_resiliency = True,
                                 enable_tpu_smart_repair = False\<rparr>\<rparr>\<rparr>)
       = Inr [''ns1-job1-0'', ''ns1-job1-1'']
   \<and> snd (delete_for
             (example_externals\<lparr>USER_FACING_NAME_TO_SYSTEM_CHARACTERISTICS := Map.empty\<rparr>)
             example_config Map.empty (example_job TPUGKEJob (Some ''resA'') True) [])
       = [] @ [DeleteNodePools example_delete_args]"
proof -
  let ?ext = "example_externals\<lparr>USER_FACING_NAME_TO_SYSTEM_CHARACTERISTICS := Map.empty\<rparr>"
  let ?j = "example_job TPUGKEJob (Some ''resA'') True"
  let ?j' = "\<lparr>type_of = FlinkTPUGKEJob,
         config = \<lparr>namespace = ''ns1'', name = ''job1'',
                   builder = \<lparr>accelerator = \<lparr>instance_type = ''v4'', num_replicas = 2\<rparr>,
                              reservation = None, location_hint = Some ''hint'',
                              enable_tpu_ici_resiliency = True,
                              enable_tpu_smart_repair = False\<rparr>\<rparr>\<rparr>"
  have sup: "isinstance ?j PRE_PROVISIONER_SUPPORTED_JOBS"
    by (simp add: example_job_def isinstance_def PRE_PROVISIONER_SUPPORTED_JOBS_def)
  have sup': "isinstance ?j' PRE_PROVISIONER_SUPPORTED_JOBS"
    by (simp add: isinstance_def PRE_PROVISIONER_SUPPORTED_JOBS_def)
  have ns: "namespace (config ?j') = namespace (config ?j)"
    and nm: "name (config ?j') = name (config ?j)"
    and n: "num_replicas (accelerator (builder (config ?j')))
            = num_replicas (accelerator (builder (config ?j)))"
    and f: "construct_node_pool_name example_externals = construct_node_pool_name ?ext"
    by (simp_all add: example_job_def)
  have naming: "\<forall>i < nat (num_replicas (accelerator (builder (config ?j)))).
      construct_node_pool_name ?ext (namespace (config ?j)) (name (config ?j)) i
        = Inr (''ns1-job1-'' @ str_nat i)"
    by (simp add: example_externals_def example_job_def)
  have names: "map (\<lambda>i. ''ns1-job1-'' @ str_nat i)
                 [0..<nat (num_replicas (accelerator (builder (config ?j))))]
               = [''ns1-job1-0'', ''ns1-job1-1'']"
    by (simp add: example_job_def upt_rec str_nat.simps digit_char_def)
  have created: "fst (create_for ?ext example_config Map.empty ?j []) = Inl (KeyError ''v5'')"
    by (simp add: example_defs eval_defs)
  have deleted: "snd (delete_for ?ext example_config Map.empty ?j [])
                 = [] @ [DeleteNodePools example_delete_args]"
    by (simp add: example_defs eval_defs)
  have miss: "USER_FACING_NAME_TO_SYSTEM_CHARACTERISTICS ?ext ''v5'' = None"
    by simp
  from delete_for_names_depend_on_identity_only [OF sup sup' ns nm n f,
      of "example_config\<lparr>project := ''other''\<rparr>"
         "[''BASTION_TIER'' \<mapsto> ''1'', ''JOBSPEC'' \<mapsto> ''spec'']"
         example_config Map.empty "\<lambda>i. ''ns1-job1-'' @ str_nat i" "[]"]
    naming names deleted
  have "map_sum id dnp_node_pool_names
          (delete_for_args example_externals (example_config\<lparr>project := ''other''\<rparr>)
             [''BASTION_TIER'' \<mapsto> ''1'', ''JOBSPEC'' \<mapsto> ''spec''] ?j')
        = map_sum id dnp_node_pool_names (delete_for_args ?ext example_config Map.empty ?j)"
    and "dnp_node_pool_names example_delete_args = [''ns1-job1-0'', ''ns1-job1-1'']"
    by auto
  moreover have "map_sum id dnp_node_pool_names (delete_for_args ?ext example_config Map.empty ?j)
        = Inr (dnp_node_pool_names example_delete_args)"
    using deleted
      delete_for_call_iff [of ?ext example_config Map.empty ?j "[]" example_delete_args]
    by simp
  ultimately show ?thesis
    using sup sup' miss created deleted by simp
qed

end
